theory Spec2Isabelle
  imports Main
begin

section \<open>Values shared by the provider, the middleware and the metadata handler\<close>

text \<open>
  A JavaScript value of type \<open>string | undefined\<close> is a \<open>string option\<close>.
  The source tests such values by truthiness (\<open>if (!tokenUrl)\<close>,
  \<open>registrationUrl && {...}\<close>): \<open>undefined\<close> and the empty string are falsy.
\<close>

definition truthy :: "string option \<Rightarrow> bool" where
  "truthy v = (case v of None \<Rightarrow> False | Some s \<Rightarrow> s \<noteq> [])"

text \<open>\<open>a || b\<close> on optional strings.\<close>

definition or_else :: "string option \<Rightarrow> string option \<Rightarrow> string option" where
  "or_else a b = (if truthy a then a else b)"

text \<open>\<open>client.client_secret || ""\<close>.\<close>

definition or_empty :: "string option \<Rightarrow> string" where
  "or_empty a = (case a of None \<Rightarrow> [] | Some s \<Rightarrow> s)"

text \<open>\<open>Array.prototype.join\<close> on strings.\<close>

fun join :: "string \<Rightarrow> string list \<Rightarrow> string" where
  "join sep [] = []"
| "join sep [x] = x"
| "join sep (x # y # ys) = x @ sep @ join sep (y # ys)"

text \<open>
  The decimal rendering of a non-negative integer, as a template literal
  \<open>`${response.status}`\<close> produces it.
\<close>

fun string_of_nat :: "nat \<Rightarrow> string" where
  "string_of_nat n =
     (if n < 10 then [char_of (48 + n)]
      else string_of_nat (n div 10) @ [char_of (48 + n mod 10)])"

declare string_of_nat.simps [simp del]

text \<open>Parsed JSON. Numbers are kept as integers: the claims never compute with them.\<close>

datatype json =
    JNull
  | JBool bool
  | JNumber int
  | JString string
  | JArray "json list"
  | JObject "(string \<times> json) list"

text \<open>
  The thrown values. The first four are the classes of \<open>errors.js\<close> that the source
  names (\<open>InvalidTokenError\<close>, \<open>InsufficientScopeError\<close> and \<open>ServerError\<close> extend
  \<open>OAuthError\<close>; \<open>OAuthError code msg\<close> stands for every other subclass, with its
  error code). \<open>Error\<close> is a plain JavaScript error. The last three are raised by the
  platform and by the schema library: \<open>new URL\<close> and \<open>fetch\<close> reject with a
  \<open>TypeError\<close>, \<open>response.json()\<close> with a \<open>SyntaxError\<close>, \<open>schema.parse\<close> with a
  \<open>ZodError\<close>.
\<close>

datatype error =
    InvalidTokenError string
  | InsufficientScopeError string
  | ServerError string
  | OAuthError string string
  | Error string
  | TypeError string
  | SyntaxError string
  | ZodError string

record OAuthClientInformationFull =
  client_id :: string
  client_secret :: "string option"
  redirect_uris :: "string list"


record OAuthTokenRevocationRequest =
  token :: string
  token_type_hint :: "string option"

record OAuthTokens =
  access_token :: string
  token_type :: string
  expires_in :: "int option"
  refresh_token :: "string option"

record AuthInfo =
  auth_token :: string
  auth_clientId :: string
  auth_scopes :: "string list"
  auth_expiresAt :: "int option"

subsection \<open>The HTTP client\<close>

text \<open>
  A request as \<open>fetch(url, {method, headers, body})\<close> receives it. A
  \<open>URLSearchParams\<close> body is kept as its list of pairs, a \<open>JSON.stringify(client)\<close>
  body as the client record.
\<close>

datatype body =
    NoBody
  | FormBody "(string \<times> string) list"
  | JSONBody OAuthClientInformationFull

record request =
  rq_url :: string
  rq_method :: string
  rq_content_type :: "string option"
  rq_body :: body

text \<open>
  A response: its status and what \<open>response.json()\<close> resolves to (\<open>None\<close> when the
  body is not JSON, and the promise rejects). \<open>response.ok\<close> is, by the Fetch
  standard, true exactly for a status from 200 to 299.
\<close>

record response =
  status :: nat
  body_json :: "json option"

definition ok :: "response \<Rightarrow> bool" where
  "ok r = (200 \<le> status r \<and> status r \<le> 299)"

definition response_json :: "response \<Rightarrow> error + json" where
  "response_json r =
     (case body_json r of
        None \<Rightarrow> Inl (SyntaxError ''Unexpected token in JSON'')
      | Some j \<Rightarrow> Inr j)"

text \<open>
  \<open>fetch\<close> is a parameter of every operation that calls upstream: \<open>Inl\<close> is a
  rejected promise (no response), \<open>Inr\<close> the response. Every operation returns,
  beside its result, the list of requests it has issued, in order.
\<close>

type_synonym fetch = "request \<Rightarrow> error + response"

text \<open>
  Modelled from the spec: \<open>OAuthTokensSchema\<close> of \<open>shared/auth.js\<close>, which is not
  among the sources. The spec's token set has a required access token and token type
  and an optional lifetime and refresh token; \<open>parse\<close> throws on any other shape.
\<close>

definition optional_string :: "json option \<Rightarrow> string option option" where
  "optional_string v =
     (case v of None \<Rightarrow> Some None | Some (JString s) \<Rightarrow> Some (Some s) | Some _ \<Rightarrow> None)"

definition optional_number :: "json option \<Rightarrow> int option option" where
  "optional_number v =
     (case v of None \<Rightarrow> Some None | Some (JNumber n) \<Rightarrow> Some (Some n) | Some _ \<Rightarrow> None)"

definition OAuthTokensSchema_parse :: "json \<Rightarrow> error + OAuthTokens" where
  "OAuthTokensSchema_parse data =
     (case data of
        JObject kv \<Rightarrow>
          (case (map_of kv ''access_token'', map_of kv ''token_type'',
                 optional_number (map_of kv ''expires_in''),
                 optional_string (map_of kv ''refresh_token'')) of
             (Some (JString a), Some (JString t), Some e, Some r) \<Rightarrow>
               Inr \<lparr>access_token = a, token_type = t, expires_in = e, refresh_token = r\<rparr>
           | _ \<Rightarrow> Inl (ZodError ''invalid token response''))
      | _ \<Rightarrow> Inl (ZodError ''invalid token response''))"

subsection \<open>The platform's URL and URLSearchParams\<close>

text \<open>
  A parsed URL with the components the source reads or writes. \<open>host\<close> is the host
  with its port, \<open>search\<close> is empty or starts with \<open>?\<close>, \<open>hash\<close> is empty or starts
  with \<open>#\<close>; \<open>href\<close> (also \<open>toString()\<close>) is the serialisation. The parser
  \<open>new URL(string)\<close> is the platform's and is a parameter of \<open>authorize\<close>:
  \<open>None\<close> is the \<open>TypeError\<close> it throws on a string that is not an absolute URL.
\<close>

record URL =
  protocol :: string
  host :: string
  pathname :: string
  search :: string
  hash :: string

definition href :: "URL \<Rightarrow> string" where
  "href u = protocol u @ ''//'' @ host u @ pathname u @ search u @ hash u"

text \<open>\<open>url.origin\<close>, for the schemes \<open>http\<close> and \<open>https\<close>.\<close>

definition origin :: "URL \<Rightarrow> string" where
  "origin u = protocol u @ ''//'' @ host u"


text \<open>
  \<open>new URL(path, base)\<close> for a \<open>path\<close> that starts with \<open>/\<close> and has no query
  or fragment (the only use the source makes of it): the path replaces the base's
  path, and the base's query and fragment are dropped.
\<close>

definition new_URL_with_base :: "string \<Rightarrow> URL \<Rightarrow> URL" where
  "new_URL_with_base path base = base\<lparr>pathname := path, search := [], hash := []\<rparr>"

text \<open>\<open>URLSearchParams\<close> is its list of pairs; \<open>set\<close> replaces the first pair of the
  name and removes the others, or appends.\<close>

fun URLSearchParams_set :: "string \<Rightarrow> string \<Rightarrow> (string \<times> string) list \<Rightarrow> (string \<times> string) list" where
  "URLSearchParams_set k v [] = [(k, v)]"
| "URLSearchParams_set k v (p # ps) =
     (if fst p = k then (k, v) # filter (\<lambda>q. fst q \<noteq> k) ps
      else p # URLSearchParams_set k v ps)"





section \<open>The proxy provider (providers/proxyProvider.ts)\<close>

record ProxyEndpoints =
  authorizationUrl :: "string option"
  tokenUrl :: "string option"
  revocationUrl :: "string option"
  registrationUrl :: "string option"

record ProxyOptions =
  endpoints :: ProxyEndpoints
  verifyToken :: "string \<Rightarrow> error + AuthInfo"
  getClient :: "string \<Rightarrow> error + OAuthClientInformationFull option"

text \<open>
  The closure the constructor assigns to \<open>this.revokeToken\<close> (lines 56 to 85). It
  reads the revocation URL of the endpoints again and checks it before anything else.
\<close>

definition revokeToken_closure ::
  "ProxyEndpoints \<Rightarrow> fetch \<Rightarrow> OAuthClientInformationFull \<Rightarrow> OAuthTokenRevocationRequest
     \<Rightarrow> (error + unit) \<times> request list" where
  "revokeToken_closure eps fetch client req =
     (case revocationUrl eps of
        None \<Rightarrow> (Inl (Error ''No revocation endpoint configured''), [])
      | Some url \<Rightarrow>
          if url = [] then (Inl (Error ''No revocation endpoint configured''), [])
          else
            let params0 = URLSearchParams_set ''client_secret'' (or_empty (client_secret client))
                            (URLSearchParams_set ''client_id'' (client_id client)
                              (URLSearchParams_set ''token'' (token req) []));
                params = (case token_type_hint req of
                            None \<Rightarrow> params0
                          | Some h \<Rightarrow>
                              if h = [] then params0
                              else URLSearchParams_set ''token_type_hint'' h params0);
                rq = \<lparr>rq_url = url, rq_method = ''POST'',
                      rq_content_type = Some ''application/x-www-form-urlencoded'',
                      rq_body = FormBody params\<rparr>
            in (case fetch rq of
                  Inl e \<Rightarrow> (Inl e, [rq])
                | Inr r \<Rightarrow>
                    if \<not> ok r
                    then (Inl (ServerError (''Token revocation failed: '' @ string_of_nat (status r))), [rq])
                    else (Inr (), [rq])))"

text \<open>
  The provider object. \<open>revokeToken\<close> is an optional property: \<open>None\<close> is a
  provider without the property. The source never assigns to the endpoints object
  after construction, so the provider holds it as a value.
\<close>

record ProxyOAuthServerProvider =
  p_endpoints :: ProxyEndpoints
  p_verifyToken :: "string \<Rightarrow> error + AuthInfo"
  p_getClient :: "string \<Rightarrow> error + OAuthClientInformationFull option"
  revokeToken :: "(fetch \<Rightarrow> OAuthClientInformationFull \<Rightarrow> OAuthTokenRevocationRequest
                    \<Rightarrow> (error + unit) \<times> request list) option"

definition new_ProxyOAuthServerProvider :: "ProxyOptions \<Rightarrow> ProxyOAuthServerProvider" where
  "new_ProxyOAuthServerProvider options =
     \<lparr>p_endpoints = endpoints options,
      p_verifyToken = verifyToken options,
      p_getClient = getClient options,
      revokeToken =
        (if truthy (revocationUrl (endpoints options))
         then Some (revokeToken_closure (endpoints options))
         else None)\<rparr>"

text \<open>The \<open>registerClient\<close> function of the store (lines 94 to 108).\<close>

definition registerClient_closure ::
  "string \<Rightarrow> fetch \<Rightarrow> OAuthClientInformationFull \<Rightarrow> (error + json) \<times> request list" where
  "registerClient_closure url fetch client =
     (let rq = \<lparr>rq_url = url, rq_method = ''POST'',
                 rq_content_type = Some ''application/json'',
                 rq_body = JSONBody client\<rparr>
      in (case fetch rq of
            Inl e \<Rightarrow> (Inl e, [rq])
          | Inr r \<Rightarrow>
              if \<not> ok r
              then (Inl (ServerError (''Client registration failed: '' @ string_of_nat (status r))), [rq])
              else (response_json r, [rq])))"

record OAuthRegisteredClientsStore =
  store_getClient :: "string \<Rightarrow> error + OAuthClientInformationFull option"
  registerClient :: "(fetch \<Rightarrow> OAuthClientInformationFull \<Rightarrow> (error + json) \<times> request list) option"

definition clientsStore :: "ProxyOAuthServerProvider \<Rightarrow> OAuthRegisteredClientsStore" where
  "clientsStore p =
     \<lparr>store_getClient = p_getClient p,
      registerClient =
        (case registrationUrl (p_endpoints p) of
           None \<Rightarrow> None
         | Some url \<Rightarrow> if url = [] then None else Some (registerClient_closure url))\<rparr>"

definition exchangeAuthorizationCode ::
  "fetch \<Rightarrow> ProxyOAuthServerProvider \<Rightarrow> OAuthClientInformationFull \<Rightarrow> string
     \<Rightarrow> (error + OAuthTokens) \<times> request list" where
  "exchangeAuthorizationCode fetch p client authorizationCode =
     (case tokenUrl (p_endpoints p) of
        None \<Rightarrow> (Inl (Error ''No token endpoint configured''), [])
      | Some url \<Rightarrow>
          if url = [] then (Inl (Error ''No token endpoint configured''), [])
          else
            let rq = \<lparr>rq_url = url, rq_method = ''POST'',
                      rq_content_type = Some ''application/x-www-form-urlencoded'',
                      rq_body = FormBody
                        [(''grant_type'', ''authorization_code''),
                         (''client_id'', client_id client),
                         (''client_secret'', or_empty (client_secret client)),
                         (''code'', authorizationCode)]\<rparr>
            in (case fetch rq of
                  Inl e \<Rightarrow> (Inl e, [rq])
                | Inr r \<Rightarrow>
                    if \<not> ok r
                    then (Inl (ServerError (''Token exchange failed: '' @ string_of_nat (status r))), [rq])
                    else (case response_json r of
                            Inl e \<Rightarrow> (Inl e, [rq])
                          | Inr data \<Rightarrow> (OAuthTokensSchema_parse data, [rq]))))"

definition exchangeRefreshToken ::
  "fetch \<Rightarrow> ProxyOAuthServerProvider \<Rightarrow> OAuthClientInformationFull \<Rightarrow> string
     \<Rightarrow> string list option \<Rightarrow> (error + OAuthTokens) \<times> request list" where
  "exchangeRefreshToken fetch p client refreshToken scps =
     (case tokenUrl (p_endpoints p) of
        None \<Rightarrow> (Inl (Error ''No token endpoint configured''), [])
      | Some url \<Rightarrow>
          if url = [] then (Inl (Error ''No token endpoint configured''), [])
          else
            let params0 = [(''grant_type'', ''refresh_token''),
                           (''client_id'', client_id client),
                           (''client_secret'', or_empty (client_secret client)),
                           (''refresh_token'', refreshToken)];
                params = (case scps of
                            None \<Rightarrow> params0
                          | Some ss \<Rightarrow>
                              if ss = [] then params0
                              else URLSearchParams_set ''scope'' (join '' '' ss) params0);
                rq = \<lparr>rq_url = url, rq_method = ''POST'',
                      rq_content_type = Some ''application/x-www-form-urlencoded'',
                      rq_body = FormBody params\<rparr>
            in (case fetch rq of
                  Inl e \<Rightarrow> (Inl e, [rq])
                | Inr r \<Rightarrow>
                    if \<not> ok r
                    then (Inl (ServerError (''Token refresh failed: '' @ string_of_nat (status r))), [rq])
                    else (case response_json r of
                            Inl e \<Rightarrow> (Inl e, [rq])
                          | Inr data \<Rightarrow> (OAuthTokensSchema_parse data, [rq]))))"

definition verifyAccessToken :: "ProxyOAuthServerProvider \<Rightarrow> string \<Rightarrow> error + AuthInfo" where
  "verifyAccessToken p tok = p_verifyToken p tok"

definition challengeForAuthorizationCode ::
  "ProxyOAuthServerProvider \<Rightarrow> OAuthClientInformationFull \<Rightarrow> string \<Rightarrow> string" where
  "challengeForAuthorizationCode p client authorizationCode = []"


subsection \<open>authorize\<close>



section \<open>The provider contract as the middleware and the handlers see it\<close>

text \<open>
  A provider is the proxy provider (\<open>provider instanceof ProxyOAuthServerProvider\<close>)
  or any other implementation of the interface, of which the source reads only the
  verification function and the two optional capabilities.
\<close>

record OtherProvider =
  o_verifyAccessToken :: "string \<Rightarrow> error + AuthInfo"
  o_revokeToken :: "(OAuthClientInformationFull \<Rightarrow> OAuthTokenRevocationRequest \<Rightarrow> error + unit) option"
  o_registerClient :: "(OAuthClientInformationFull \<Rightarrow> error + OAuthClientInformationFull) option"

datatype OAuthServerProvider =
    Proxy ProxyOAuthServerProvider
  | Other OtherProvider

text \<open>The truthiness of \<open>provider.revokeToken\<close> and of
  \<open>provider.clientsStore.registerClient\<close>.\<close>

definition has_revokeToken :: "OAuthServerProvider \<Rightarrow> bool" where
  "has_revokeToken provider =
     (case provider of
        Proxy p \<Rightarrow> revokeToken p \<noteq> None
      | Other q \<Rightarrow> o_revokeToken q \<noteq> None)"

definition has_registerClient :: "OAuthServerProvider \<Rightarrow> bool" where
  "has_registerClient provider =
     (case provider of
        Proxy p \<Rightarrow> registerClient (clientsStore p) \<noteq> None
      | Other q \<Rightarrow> o_registerClient q \<noteq> None)"

definition provider_verifyAccessToken :: "OAuthServerProvider \<Rightarrow> string \<Rightarrow> error + AuthInfo" where
  "provider_verifyAccessToken provider tok =
     (case provider of
        Proxy p \<Rightarrow> verifyAccessToken p tok
      | Other q \<Rightarrow> o_verifyAccessToken q tok)"

section \<open>The bearer authentication middleware (requireBearerAuth, src/unnamed/part_000)\<close>

text \<open>
  Modelled from the spec: the error codes and the response object of \<open>errors.js\<close>,
  which is not among the sources. The spec gives \<open>invalid_token\<close>,
  \<open>insufficient_scope\<close> and \<open>server_error\<close>, and a body with the fields \<open>error\<close> and
  \<open>error_description\<close>.
\<close>

definition errorCode :: "error \<Rightarrow> string" where
  "errorCode e =
     (case e of
        InvalidTokenError m \<Rightarrow> ''invalid_token''
      | InsufficientScopeError m \<Rightarrow> ''insufficient_scope''
      | ServerError m \<Rightarrow> ''server_error''
      | OAuthError c m \<Rightarrow> c
      | _ \<Rightarrow> [])"

definition message :: "error \<Rightarrow> string" where
  "message e =
     (case e of
        InvalidTokenError m \<Rightarrow> m
      | InsufficientScopeError m \<Rightarrow> m
      | ServerError m \<Rightarrow> m
      | OAuthError c m \<Rightarrow> m
      | Error m \<Rightarrow> m
      | TypeError m \<Rightarrow> m
      | SyntaxError m \<Rightarrow> m
      | ZodError m \<Rightarrow> m)"

record OAuthErrorResponse =
  resp_error :: string
  resp_error_description :: string

definition toResponseObject :: "error \<Rightarrow> OAuthErrorResponse" where
  "toResponseObject e = \<lparr>resp_error = errorCode e, resp_error_description = message e\<rparr>"

datatype verifier =
    WithProvider OAuthServerProvider
  | WithVerifyToken "string \<Rightarrow> error + AuthInfo"

record BearerAuthMiddlewareOptions =
  requiredScopes :: "string list option"
  verifier :: verifier

text \<open>
  What the handler does with a request: it calls \<open>next()\<close> with \<open>req.auth\<close> set, or
  it answers with a status, an optional \<open>WWW-Authenticate\<close> header and a JSON body.
\<close>

datatype outcome =
    Next AuthInfo
  | Respond nat "string option" OAuthErrorResponse

text \<open>\<open>String.prototype.split\<close> with a one-character separator.\<close>

fun split :: "char \<Rightarrow> string \<Rightarrow> string list" where
  "split c [] = [[]]"
| "split c (x # xs) =
     (if x = c then [] # split c xs
      else (case split c xs of
              [] \<Rightarrow> [[x]]
            | y # ys \<Rightarrow> (x # y) # ys))"

definition toLowerCase :: "string \<Rightarrow> string" where
  "toLowerCase s =
     map (\<lambda>c. let n = (of_char c :: nat) in if 65 \<le> n \<and> n \<le> 90 then char_of (n + 32) else c) s"

definition options_verifyToken :: "BearerAuthMiddlewareOptions \<Rightarrow> string \<Rightarrow> error + AuthInfo" where
  "options_verifyToken options =
     (case verifier options of
        WithProvider provider \<Rightarrow> provider_verifyAccessToken provider
      | WithVerifyToken f \<Rightarrow> f)"

text \<open>
  The \<open>try\<close> block (lines 50 to 75): the thrown error or the verified identity, and
  the tokens the verification function was called with.
\<close>

definition requireBearerAuth_try ::
  "BearerAuthMiddlewareOptions \<Rightarrow> string option \<Rightarrow> (error + AuthInfo) \<times> string list" where
  "requireBearerAuth_try options authHeader =
     (case authHeader of
        None \<Rightarrow> (Inl (InvalidTokenError ''Missing Authorization header''), [])
      | Some h \<Rightarrow>
          if h = [] then (Inl (InvalidTokenError ''Missing Authorization header''), [])
          else
            (case split (CHR '' '') h of
               [] \<Rightarrow> (Inl (TypeError ''Cannot read properties of undefined''), [])
             | type # rest \<Rightarrow>
                 let tok = (case rest of [] \<Rightarrow> None | t # ts \<Rightarrow> Some t) in
                 if toLowerCase type \<noteq> ''bearer'' \<or> \<not> truthy tok
                 then (Inl (InvalidTokenError
                         (''Invalid Authorization header format, expected '' @ [CHR 0x27]
                           @ ''Bearer TOKEN'' @ [CHR 0x27])), [])
                 else
                   (case options_verifyToken options (or_empty tok) of
                      Inl e \<Rightarrow> (Inl e, [or_empty tok])
                    | Inr authInfo \<Rightarrow>
                        let required = (case requiredScopes options of None \<Rightarrow> [] | Some rs \<Rightarrow> rs) in
                        if length required > 0
                           \<and> \<not> list_all (\<lambda>scope. scope \<in> set (auth_scopes authInfo)) required
                        then (Inl (InsufficientScopeError ''Insufficient scope''), [or_empty tok])
                        else (Inr authInfo, [or_empty tok]))))"

text \<open>The \<open>catch\<close> block (lines 76 to 91).\<close>

definition www_authenticate :: "error \<Rightarrow> string" where
  "www_authenticate e =
     ''Bearer error='' @ [CHR 0x22] @ errorCode e @ [CHR 0x22] @ '', error_description=''
       @ [CHR 0x22] @ message e @ [CHR 0x22]"

definition requireBearerAuth_catch :: "error \<Rightarrow> outcome" where
  "requireBearerAuth_catch e =
     (case e of
        InvalidTokenError m \<Rightarrow> Respond 401 (Some (www_authenticate e)) (toResponseObject e)
      | InsufficientScopeError m \<Rightarrow> Respond 403 (Some (www_authenticate e)) (toResponseObject e)
      | ServerError m \<Rightarrow> Respond 500 None (toResponseObject e)
      | OAuthError c m \<Rightarrow> Respond 400 None (toResponseObject e)
      | _ \<Rightarrow> Respond 500 None (toResponseObject (ServerError ''Internal Server Error'')))"

definition requireBearerAuth ::
  "BearerAuthMiddlewareOptions \<Rightarrow> string option \<Rightarrow> outcome \<times> string list" where
  "requireBearerAuth options authHeader =
     (case requireBearerAuth_try options authHeader of
        (Inr authInfo, calls) \<Rightarrow> (Next authInfo, calls)
      | (Inl e, calls) \<Rightarrow> (requireBearerAuth_catch e, calls))"

section \<open>The metadata handler (metadataHandler)\<close>

definition DEFAULT_AUTHORIZATION_ENDPOINT :: string where
  "DEFAULT_AUTHORIZATION_ENDPOINT = ''/authorize''"

definition DEFAULT_TOKEN_ENDPOINT :: string where
  "DEFAULT_TOKEN_ENDPOINT = ''/token''"

definition DEFAULT_REGISTRATION_ENDPOINT :: string where
  "DEFAULT_REGISTRATION_ENDPOINT = ''/register''"

definition DEFAULT_REVOCATION_ENDPOINT :: string where
  "DEFAULT_REVOCATION_ENDPOINT = ''/revoke''"

record OAuthMetadata =
  issuer :: string
  service_documentation :: "string option"
  authorization_endpoint :: string
  response_types_supported :: "string list"
  code_challenge_methods_supported :: "string list"
  token_endpoint :: string
  token_endpoint_auth_methods_supported :: "string list"
  grant_types_supported :: "string list"
  revocation_endpoint :: "string option"
  revocation_endpoint_auth_methods_supported :: "string list option"
  registration_endpoint :: "string option"

text \<open>\<open>isProxy && provider.xUrl\<close>: the URL when the provider is the proxy provider and
  the URL is truthy.\<close>

definition proxy_url :: "OAuthServerProvider \<Rightarrow> (ProxyEndpoints \<Rightarrow> string option) \<Rightarrow> string option" where
  "proxy_url provider getter =
     (case provider of
        Proxy p \<Rightarrow> if truthy (getter (p_endpoints p)) then getter (p_endpoints p) else None
      | Other q \<Rightarrow> None)"

definition buildUrl :: "URL \<Rightarrow> string \<Rightarrow> string" where
  "buildUrl issuerUrl path = href (new_URL_with_base path issuerUrl)"

text \<open>The handler that knows the proxy provider (the second file of
  \<open>src/src/server/auth/providers/proxyProvider.ts\<close>): the document it serves.\<close>

definition metadataHandler :: "OAuthServerProvider \<Rightarrow> URL \<Rightarrow> URL option \<Rightarrow> OAuthMetadata" where
  "metadataHandler provider issuerUrl serviceDocumentationUrl =
     (let authorization_endpoint' =
            (case proxy_url provider authorizationUrl of
               Some u \<Rightarrow> u
             | None \<Rightarrow> buildUrl issuerUrl DEFAULT_AUTHORIZATION_ENDPOINT);
          token_endpoint' =
            (case proxy_url provider tokenUrl of
               Some u \<Rightarrow> u
             | None \<Rightarrow> buildUrl issuerUrl DEFAULT_TOKEN_ENDPOINT);
          revocation_endpoint' =
            (if has_revokeToken provider
             then (case proxy_url provider revocationUrl of
                     Some u \<Rightarrow> Some u
                   | None \<Rightarrow> Some (buildUrl issuerUrl DEFAULT_REVOCATION_ENDPOINT))
             else None);
          registration_endpoint' =
            (if has_registerClient provider
             then (case proxy_url provider registrationUrl of
                     Some u \<Rightarrow> Some u
                   | None \<Rightarrow> Some (buildUrl issuerUrl DEFAULT_REGISTRATION_ENDPOINT))
             else None)
      in \<lparr>issuer = href issuerUrl,
          service_documentation = map_option href serviceDocumentationUrl,
          authorization_endpoint = authorization_endpoint',
          response_types_supported = [''code''],
          code_challenge_methods_supported = [''S256''],
          token_endpoint = token_endpoint',
          token_endpoint_auth_methods_supported = [''client_secret_post''],
          grant_types_supported = [''authorization_code'', ''refresh_token''],
          revocation_endpoint = revocation_endpoint',
          revocation_endpoint_auth_methods_supported =
            (if truthy revocation_endpoint' then Some [''client_secret_post''] else None),
          registration_endpoint = registration_endpoint'\<rparr>)"


text \<open>
  The router of \<open>src/unnamed/part_003\<close> assembles the same document itself, with
  \<open>getEndpointUrl\<close>: no URL without a local path, else the URL of the proxy provider
  when there is one, else the local path resolved against the issuer.
\<close>

definition getEndpointUrl ::
  "OAuthServerProvider \<Rightarrow> URL \<Rightarrow> string option \<Rightarrow> (ProxyEndpoints \<Rightarrow> string option)
     \<Rightarrow> string option" where
  "getEndpointUrl provider issuerUrl localPath getProxyUrl =
     (case localPath of
        None \<Rightarrow> None
      | Some path \<Rightarrow>
          if path = [] then None
          else or_else (proxy_url provider getProxyUrl)
                       (Some (href (new_URL_with_base path issuerUrl))))"

definition mcpAuthRouter_metadata :: "OAuthServerProvider \<Rightarrow> URL \<Rightarrow> URL option \<Rightarrow> OAuthMetadata" where
  "mcpAuthRouter_metadata provider issuerUrl serviceDocumentationUrl =
     (let authorization_endpoint' = ''/authorize'';
          token_endpoint' = ''/token'';
          registration_endpoint' = (if has_registerClient provider then Some ''/register'' else None);
          revocation_endpoint' = (if has_revokeToken provider then Some ''/revoke'' else None)
      in \<lparr>issuer = href issuerUrl,
          service_documentation = map_option href serviceDocumentationUrl,
          authorization_endpoint =
            or_empty (or_else (getEndpointUrl provider issuerUrl (Some authorization_endpoint')
                                 authorizationUrl)
                              (Some (href (new_URL_with_base authorization_endpoint' issuerUrl)))),
          response_types_supported = [''code''],
          code_challenge_methods_supported = [''S256''],
          token_endpoint =
            or_empty (or_else (getEndpointUrl provider issuerUrl (Some token_endpoint') tokenUrl)
                              (Some (href (new_URL_with_base token_endpoint' issuerUrl)))),
          token_endpoint_auth_methods_supported = [''client_secret_post''],
          grant_types_supported = [''authorization_code'', ''refresh_token''],
          revocation_endpoint = getEndpointUrl provider issuerUrl revocation_endpoint' revocationUrl,
          revocation_endpoint_auth_methods_supported =
            (if truthy revocation_endpoint' then Some [''client_secret_post''] else None),
          registration_endpoint =
            getEndpointUrl provider issuerUrl registration_endpoint' registrationUrl\<rparr>)"





section \<open>The proxy provider that fetches the upstream metadata lazily (src/unnamed/part_004)\<close>

text \<open>
  The variant of the provider with a \<open>metadataUrl\<close> option and a private
  \<open>_metadata\<close> field. Its names carry the suffix \<open>_lazy\<close> where they would clash
  with the provider above. The provider object is passed to every operation and
  returned by it, since \<open>getMetadata\<close> assigns \<open>this._metadata\<close>.
\<close>

record ProxyEndpoints_lazy =
  authorizationUrl_lazy :: "string option"
  tokenUrl_lazy :: "string option"
  revokeUrl :: "string option"
  registerUrl :: "string option"


record ProxyOAuthServerProvider_lazy =
  metadataUrl_lazy :: "string option"
  endpoints_lazy :: ProxyEndpoints_lazy
  metadata_lazy :: "json option"
  verifyToken_lazy :: "string \<Rightarrow> error + AuthInfo"


text \<open>The truthiness of a JSON value, for \<open>!this._metadata\<close>.\<close>

fun json_truthy :: "json \<Rightarrow> bool" where
  "json_truthy JNull = False"
| "json_truthy (JBool b) = b"
| "json_truthy (JNumber n) = (n \<noteq> 0)"
| "json_truthy (JString s) = (s \<noteq> [])"
| "json_truthy (JArray xs) = True"
| "json_truthy (JObject kv) = True"

definition cached :: "json option \<Rightarrow> bool" where
  "cached m = (case m of None \<Rightarrow> False | Some j \<Rightarrow> json_truthy j)"

text \<open>
  \<open>metadata?.authorization_endpoint\<close> and its like: the property of the document.
  The declared type of the document has string properties only; a property with
  another value is read as absent.
\<close>

definition metadata_property :: "json option \<Rightarrow> string \<Rightarrow> string option" where
  "metadata_property metadata k =
     (case metadata of
        Some (JObject kv) \<Rightarrow> (case map_of kv k of Some (JString s) \<Rightarrow> Some s | _ \<Rightarrow> None)
      | _ \<Rightarrow> None)"

definition metadata_request :: "string \<Rightarrow> request" where
  "metadata_request url =
     \<lparr>rq_url = url, rq_method = ''GET'', rq_content_type = None, rq_body = NoBody\<rparr>"

text \<open>\<open>getMetadata\<close> run to completion, with no other caller in between.\<close>

definition getMetadata ::
  "fetch \<Rightarrow> ProxyOAuthServerProvider_lazy
     \<Rightarrow> (error + json option) \<times> ProxyOAuthServerProvider_lazy \<times> request list" where
  "getMetadata fetch p =
     (case metadataUrl_lazy p of
        None \<Rightarrow> (Inr None, p, [])
      | Some url \<Rightarrow>
          if url = [] then (Inr None, p, [])
          else if \<not> cached (metadata_lazy p)
          then (case fetch (metadata_request url) of
                  Inl e \<Rightarrow> (Inl e, p, [metadata_request url])
                | Inr r \<Rightarrow>
                    if \<not> ok r
                    then (Inl (ServerError (''Failed to fetch OAuth metadata: '' @ string_of_nat (status r))),
                          p, [metadata_request url])
                    else (case response_json r of
                            Inl e \<Rightarrow> (Inl e, p, [metadata_request url])
                          | Inr j \<Rightarrow> (Inr (Some j), p\<lparr>metadata_lazy := Some j\<rparr>, [metadata_request url])))
          else (Inr (metadata_lazy p), p, []))"


text \<open>The exchanges of this variant return \<open>response.json()\<close> as it is.\<close>

definition exchangeAuthorizationCode_lazy ::
  "fetch \<Rightarrow> ProxyOAuthServerProvider_lazy \<Rightarrow> OAuthClientInformationFull \<Rightarrow> string
     \<Rightarrow> (error + json) \<times> ProxyOAuthServerProvider_lazy \<times> request list" where
  "exchangeAuthorizationCode_lazy fetch p client authorizationCode =
     (case getMetadata fetch p of
        (Inl e, p', calls) \<Rightarrow> (Inl e, p', calls)
      | (Inr metadata, p', calls) \<Rightarrow>
          (case or_else (tokenUrl_lazy (endpoints_lazy p'))
                        (metadata_property metadata ''token_endpoint'') of
             None \<Rightarrow> (Inl (Error ''No token endpoint configured''), p', calls)
           | Some url \<Rightarrow>
               if url = [] then (Inl (Error ''No token endpoint configured''), p', calls)
               else
                 let rq = \<lparr>rq_url = url, rq_method = ''POST'',
                           rq_content_type = Some ''application/x-www-form-urlencoded'',
                           rq_body = FormBody
                             [(''grant_type'', ''authorization_code''),
                              (''client_id'', client_id client),
                              (''client_secret'', or_empty (client_secret client)),
                              (''code'', authorizationCode)]\<rparr>
                 in (case fetch rq of
                       Inl e \<Rightarrow> (Inl e, p', calls @ [rq])
                     | Inr r \<Rightarrow>
                         if \<not> ok r
                         then (Inl (ServerError (''Token exchange failed: '' @ string_of_nat (status r))),
                               p', calls @ [rq])
                         else (response_json r, p', calls @ [rq]))))"

definition exchangeRefreshToken_lazy ::
  "fetch \<Rightarrow> ProxyOAuthServerProvider_lazy \<Rightarrow> OAuthClientInformationFull \<Rightarrow> string
     \<Rightarrow> string list option \<Rightarrow> (error + json) \<times> ProxyOAuthServerProvider_lazy \<times> request list" where
  "exchangeRefreshToken_lazy fetch p client refreshToken scps =
     (case getMetadata fetch p of
        (Inl e, p', calls) \<Rightarrow> (Inl e, p', calls)
      | (Inr metadata, p', calls) \<Rightarrow>
          (case or_else (tokenUrl_lazy (endpoints_lazy p'))
                        (metadata_property metadata ''token_endpoint'') of
             None \<Rightarrow> (Inl (Error ''No token endpoint configured''), p', calls)
           | Some url \<Rightarrow>
               if url = [] then (Inl (Error ''No token endpoint configured''), p', calls)
               else
                 let params0 = [(''grant_type'', ''refresh_token''),
                                (''client_id'', client_id client),
                                (''client_secret'', or_empty (client_secret client)),
                                (''refresh_token'', refreshToken)];
                     params = (case scps of
                                 None \<Rightarrow> params0
                               | Some ss \<Rightarrow>
                                   if ss = [] then params0
                                   else URLSearchParams_set ''scope'' (join '' '' ss) params0);
                     rq = \<lparr>rq_url = url, rq_method = ''POST'',
                           rq_content_type = Some ''application/x-www-form-urlencoded'',
                           rq_body = FormBody params\<rparr>
                 in (case fetch rq of
                       Inl e \<Rightarrow> (Inl e, p', calls @ [rq])
                     | Inr r \<Rightarrow>
                         if \<not> ok r
                         then (Inl (ServerError (''Token refresh failed: '' @ string_of_nat (status r))),
                               p', calls @ [rq])
                         else (response_json r, p', calls @ [rq]))))"

definition revokeToken_lazy ::
  "fetch \<Rightarrow> ProxyOAuthServerProvider_lazy \<Rightarrow> OAuthClientInformationFull
     \<Rightarrow> OAuthTokenRevocationRequest
     \<Rightarrow> (error + unit) \<times> ProxyOAuthServerProvider_lazy \<times> request list" where
  "revokeToken_lazy fetch p client req =
     (case getMetadata fetch p of
        (Inl e, p', calls) \<Rightarrow> (Inl e, p', calls)
      | (Inr metadata, p', calls) \<Rightarrow>
          (case or_else (revokeUrl (endpoints_lazy p'))
                        (metadata_property metadata ''revocation_endpoint'') of
             None \<Rightarrow> (Inl (Error ''No revocation endpoint configured''), p', calls)
           | Some url \<Rightarrow>
               if url = [] then (Inl (Error ''No revocation endpoint configured''), p', calls)
               else
                 let params0 = URLSearchParams_set ''client_secret'' (or_empty (client_secret client))
                                 (URLSearchParams_set ''client_id'' (client_id client)
                                   (URLSearchParams_set ''token'' (token req) []));
                     params = (case token_type_hint req of
                                 None \<Rightarrow> params0
                               | Some h \<Rightarrow>
                                   if h = [] then params0
                                   else URLSearchParams_set ''token_type_hint'' h params0);
                     rq = \<lparr>rq_url = url, rq_method = ''POST'',
                           rq_content_type = Some ''application/x-www-form-urlencoded'',
                           rq_body = FormBody params\<rparr>
                 in (case fetch rq of
                       Inl e \<Rightarrow> (Inl e, p', calls @ [rq])
                     | Inr r \<Rightarrow>
                         if \<not> ok r
                         then (Inl (ServerError (''Token revocation failed: '' @ string_of_nat (status r))),
                               p', calls @ [rq])
                         else (Inr (), p', calls @ [rq]))))"

definition registerClient_lazy ::
  "fetch \<Rightarrow> ProxyOAuthServerProvider_lazy \<Rightarrow> OAuthClientInformationFull
     \<Rightarrow> (error + json) \<times> ProxyOAuthServerProvider_lazy \<times> request list" where
  "registerClient_lazy fetch p client =
     (case getMetadata fetch p of
        (Inl e, p', calls) \<Rightarrow> (Inl e, p', calls)
      | (Inr metadata, p', calls) \<Rightarrow>
          (case or_else (registerUrl (endpoints_lazy p'))
                        (metadata_property metadata ''registration_endpoint'') of
             None \<Rightarrow> (Inl (Error ''Client registration not supported''), p', calls)
           | Some url \<Rightarrow>
               if url = [] then (Inl (Error ''Client registration not supported''), p', calls)
               else
                 let rq = \<lparr>rq_url = url, rq_method = ''POST'',
                           rq_content_type = Some ''application/json'',
                           rq_body = JSONBody client\<rparr>
                 in (case fetch rq of
                       Inl e \<Rightarrow> (Inl e, p', calls @ [rq])
                     | Inr r \<Rightarrow>
                         if \<not> ok r
                         then (Inl (ServerError (''Client registration failed: '' @ string_of_nat (status r))),
                               p', calls @ [rq])
                         else (response_json r, p', calls @ [rq]))))"

subsection \<open>getMetadata under interleaving\<close>

text \<open>
  An \<open>async\<close> function runs without interruption from one \<open>await\<close> to the next, and
  other callers run while it waits. A call of \<open>getMetadata\<close> has two waits,
  \<open>await fetch(this._metadataUrl)\<close> and \<open>await response.json()\<close>, so it is in one of
  five places. The system is the provider's \<open>_metadataUrl\<close> and \<open>_metadata\<close>, the
  callers, and the requests issued so far. An event runs one caller to its next wait:
  \<open>Call i\<close> starts caller \<open>i\<close>, \<open>FetchSettled i x\<close> settles its \<open>fetch\<close> with \<open>x\<close>,
  \<open>JsonSettled i\<close> settles its \<open>response.json()\<close>. An event that does not fit the
  caller's place changes nothing.
\<close>

datatype caller =
    NotStarted
  | AwaitingFetch
  | AwaitingJson response
  | Resolved "json option"
  | Rejected error

datatype event =
    Call nat
  | FetchSettled nat "error + response"
  | JsonSettled nat

record system =
  sys_metadataUrl :: "string option"
  sys_metadata :: "json option"
  sys_callers :: "caller list"
  sys_requests :: "request list"

definition step :: "event \<Rightarrow> system \<Rightarrow> system" where
  "step ev s =
     (case ev of
        Call i \<Rightarrow>
          if i < length (sys_callers s) \<and> sys_callers s ! i = NotStarted
          then (case sys_metadataUrl s of
                  None \<Rightarrow> s\<lparr>sys_callers := (sys_callers s)[i := Resolved None]\<rparr>
                | Some url \<Rightarrow>
                    if url = [] then s\<lparr>sys_callers := (sys_callers s)[i := Resolved None]\<rparr>
                    else if \<not> cached (sys_metadata s)
                    then s\<lparr>sys_callers := (sys_callers s)[i := AwaitingFetch],
                           sys_requests := sys_requests s @ [metadata_request url]\<rparr>
                    else s\<lparr>sys_callers := (sys_callers s)[i := Resolved (sys_metadata s)]\<rparr>)
          else s
      | FetchSettled i x \<Rightarrow>
          if i < length (sys_callers s) \<and> sys_callers s ! i = AwaitingFetch
          then (case x of
                  Inl e \<Rightarrow> s\<lparr>sys_callers := (sys_callers s)[i := Rejected e]\<rparr>
                | Inr r \<Rightarrow>
                    if \<not> ok r
                    then s\<lparr>sys_callers := (sys_callers s)
                             [i := Rejected (ServerError (''Failed to fetch OAuth metadata: ''
                                                          @ string_of_nat (status r)))]\<rparr>
                    else s\<lparr>sys_callers := (sys_callers s)[i := AwaitingJson r]\<rparr>)
          else s
      | JsonSettled i \<Rightarrow>
          if i < length (sys_callers s)
          then (case sys_callers s ! i of
                  AwaitingJson r \<Rightarrow>
                    (case response_json r of
                       Inl e \<Rightarrow> s\<lparr>sys_callers := (sys_callers s)[i := Rejected e]\<rparr>
                     | Inr j \<Rightarrow> s\<lparr>sys_metadata := Some j,
                                   sys_callers := (sys_callers s)[i := Resolved (Some j)]\<rparr>)
                | _ \<Rightarrow> s)
          else s)"

definition run :: "event list \<Rightarrow> system \<Rightarrow> system" where
  "run evs s = foldl (\<lambda>t ev. step ev t) s evs"

definition in_flight :: "system \<Rightarrow> nat" where
  "in_flight s = length (filter (\<lambda>c. c = AwaitingFetch) (sys_callers s))"

definition start :: "string option \<Rightarrow> nat \<Rightarrow> system" where
  "start url n =
     \<lparr>sys_metadataUrl = url, sys_metadata = None,
      sys_callers = replicate n NotStarted, sys_requests = []\<rparr>"


section \<open>Values of the test suite and of the spec's scenarios\<close>

text \<open>\<open>validClient\<close> and \<open>baseOptions\<close> of \<open>proxyProvider.test.ts\<close>. The expiry
  time of the mocked identity depends on the clock and is left out.\<close>

definition validClient :: OAuthClientInformationFull where
  "validClient = \<lparr>client_id = ''test-client'', client_secret = Some ''test-secret'',
                   redirect_uris = [''https://example.com/callback'']\<rparr>"

definition baseOptions :: ProxyOptions where
  "baseOptions =
     \<lparr>endpoints = \<lparr>authorizationUrl = Some ''https://auth.example.com/authorize'',
                    tokenUrl = Some ''https://auth.example.com/token'',
                    revocationUrl = Some ''https://auth.example.com/revoke'',
                    registrationUrl = Some ''https://auth.example.com/register''\<rparr>,
      verifyToken = (\<lambda>tok. if tok = ''valid-token''
                            then Inr \<lparr>auth_token = tok, auth_clientId = ''test-client'',
                                      auth_scopes = [''read'', ''write''], auth_expiresAt = None\<rparr>
                            else Inl (Error ''Invalid token'')),
      getClient = (\<lambda>clientId. if clientId = ''test-client'' then Inr (Some validClient) else Inr None)\<rparr>"

text \<open>A mocked \<open>fetch\<close> that answers every request with one status, and with a JSON
  body when one is given.\<close>

definition fetch_status :: "nat \<Rightarrow> json option \<Rightarrow> fetch" where
  "fetch_status n j = (\<lambda>rq. Inr \<lparr>status = n, body_json = j\<rparr>)"

text \<open>\<open>mockTokenResponse\<close> of the test suite, as the parsed body of a response.\<close>

definition mockTokenResponse :: json where
  "mockTokenResponse =
     JObject [(''access_token'', JString ''new-access-token''),
              (''token_type'', JString ''Bearer''),
              (''expires_in'', JNumber 3600),
              (''refresh_token'', JString ''new-refresh-token'')]"



text \<open>A provider of the lazy variant with the token endpoint only.\<close>

definition tokenOnlyProvider :: ProxyOAuthServerProvider_lazy where
  "tokenOnlyProvider =
     \<lparr>metadataUrl_lazy = None,
      endpoints_lazy = \<lparr>authorizationUrl_lazy = None,
                        tokenUrl_lazy = Some ''https://auth.example.com/token'',
                        revokeUrl = None, registerUrl = None\<rparr>,
      metadata_lazy = None,
      verifyToken_lazy = verifyToken baseOptions\<rparr>"










text \<open>The spec's middleware scenario: the verification grants \<open>read\<close>, the
  middleware requires \<open>read\<close> and \<open>write\<close>.\<close>

definition scenarioOptions :: BearerAuthMiddlewareOptions where
  "scenarioOptions =
     \<lparr>requiredScopes = Some [''read'', ''write''],
      verifier = WithVerifyToken
        (\<lambda>tok. Inr \<lparr>auth_token = tok, auth_clientId = ''c1'', auth_scopes = [''read''],
                    auth_expiresAt = None\<rparr>)\<rparr>"

text \<open>A middleware over the provider of the test suite, whose verification function
  throws a plain \<open>Error\<close> for every token but one.\<close>

definition providerOptions :: BearerAuthMiddlewareOptions where
  "providerOptions =
     \<lparr>requiredScopes = None,
      verifier = WithProvider (Proxy (new_ProxyOAuthServerProvider baseOptions))\<rparr>"




section \<open>Properties of the proxy provider\<close>

subsection \<open>Auxiliary facts\<close>






subsection \<open>Upstream failures\<close>



subsection \<open>Optional capabilities\<close>

text \<open>
  C3. A constructed provider has the \<open>revokeToken\<close> property exactly when the
  options carry a revocation URL, and its store has the \<open>registerClient\<close> property
  exactly when they carry a registration URL. A URL is carried when the option is a
  non-empty string (the source tests it by truthiness). An absent capability is an
  absent property (\<open>None\<close>), not a function that does nothing.
\<close>

theorem capability_present_iff_url_supplied:
  "(revokeToken (new_ProxyOAuthServerProvider options) \<noteq> None)
     = truthy (revocationUrl (endpoints options))
   \<and> (registerClient (clientsStore (new_ProxyOAuthServerProvider options)) \<noteq> None)
     = truthy (registrationUrl (endpoints options))"
  by (simp add: new_ProxyOAuthServerProvider_def clientsStore_def truthy_def split: option.splits)


subsection \<open>Missing endpoints\<close>




subsection \<open>The redirect of authorize\<close>







subsection \<open>Validation of the token response\<close>

text \<open>The one request of an exchange.\<close>

lemma exchangeAuthorizationCode_calls:
  "snd (exchangeAuthorizationCode fetch p client code) = [rq] \<Longrightarrow>
   \<exists>url. tokenUrl (p_endpoints p) = Some url \<and> url \<noteq> [] \<and>
     rq = \<lparr>rq_url = url, rq_method = ''POST'',
           rq_content_type = Some ''application/x-www-form-urlencoded'',
           rq_body = FormBody
             [(''grant_type'', ''authorization_code''),
              (''client_id'', client_id client),
              (''client_secret'', or_empty (client_secret client)),
              (''code'', code)]\<rparr>"
  by (cases "tokenUrl (p_endpoints p)")
     (auto simp: exchangeAuthorizationCode_def Let_def split: if_splits sum.splits)

lemma exchangeRefreshToken_calls:
  "snd (exchangeRefreshToken fetch p client refreshToken scps) = [rq] \<Longrightarrow>
   \<exists>url. tokenUrl (p_endpoints p) = Some url \<and> url \<noteq> [] \<and>
     rq = \<lparr>rq_url = url, rq_method = ''POST'',
           rq_content_type = Some ''application/x-www-form-urlencoded'',
           rq_body = FormBody
             (case scps of
                None \<Rightarrow> [(''grant_type'', ''refresh_token''),
                         (''client_id'', client_id client),
                         (''client_secret'', or_empty (client_secret client)),
                         (''refresh_token'', refreshToken)]
              | Some ss \<Rightarrow>
                  if ss = []
                  then [(''grant_type'', ''refresh_token''),
                        (''client_id'', client_id client),
                        (''client_secret'', or_empty (client_secret client)),
                        (''refresh_token'', refreshToken)]
                  else URLSearchParams_set ''scope'' (join '' '' ss)
                         [(''grant_type'', ''refresh_token''),
                          (''client_id'', client_id client),
                          (''client_secret'', or_empty (client_secret client)),
                          (''refresh_token'', refreshToken)])\<rparr>"
  by (cases "tokenUrl (p_endpoints p)")
     (auto simp: exchangeRefreshToken_def Let_def split: if_splits sum.splits)

text \<open>The provider of \<open>providers/proxyProvider.ts\<close> hands every 2xx body to the
  schema: a body that is not JSON fails in \<open>response.json()\<close>, any other body gives
  what \<open>OAuthTokensSchema.parse\<close> gives.\<close>

lemma exchange_validates_2xx_body:
  assumes "ok r" and "fetch rq = Inr r"
  shows "(snd (exchangeAuthorizationCode fetch p client code) = [rq] \<longrightarrow>
            fst (exchangeAuthorizationCode fetch p client code)
              = (case body_json r of
                   None \<Rightarrow> Inl (SyntaxError ''Unexpected token in JSON'')
                 | Some data \<Rightarrow> OAuthTokensSchema_parse data))
       \<and> (snd (exchangeRefreshToken fetch p client refreshToken scps) = [rq] \<longrightarrow>
            fst (exchangeRefreshToken fetch p client refreshToken scps)
              = (case body_json r of
                   None \<Rightarrow> Inl (SyntaxError ''Unexpected token in JSON'')
                 | Some data \<Rightarrow> OAuthTokensSchema_parse data))"
proof (intro conjI impI)
  assume "snd (exchangeAuthorizationCode fetch p client code) = [rq]"
  from exchangeAuthorizationCode_calls [OF this] assms
  show "fst (exchangeAuthorizationCode fetch p client code)
              = (case body_json r of
                   None \<Rightarrow> Inl (SyntaxError ''Unexpected token in JSON'')
                 | Some data \<Rightarrow> OAuthTokensSchema_parse data)"
    by (cases "body_json r")
       (auto simp: exchangeAuthorizationCode_def response_json_def Let_def)
next
  assume "snd (exchangeRefreshToken fetch p client refreshToken scps) = [rq]"
  from exchangeRefreshToken_calls [OF this] assms
  show "fst (exchangeRefreshToken fetch p client refreshToken scps)
              = (case body_json r of
                   None \<Rightarrow> Inl (SyntaxError ''Unexpected token in JSON'')
                 | Some data \<Rightarrow> OAuthTokensSchema_parse data)"
    by (cases "body_json r")
       (auto simp: exchangeRefreshToken_def response_json_def Let_def)
qed

text \<open>
  C7. The lazy variant does not validate: with the token endpoint configured and an
  upstream answer of 200 with the body \<open>{}\<close>, its \<open>exchangeAuthorizationCode\<close> returns
  \<open>{}\<close> as the tokens, although the schema rejects \<open>{}\<close>; the provider of
  \<open>providers/proxyProvider.ts\<close> fails on the same answer with the schema's error.
\<close>

theorem lazy_exchange_returns_unvalidated_body:
  "exchangeAuthorizationCode_lazy (fetch_status 200 (Some (JObject []))) tokenOnlyProvider
       validClient ''test-code''
     = (Inr (JObject []), tokenOnlyProvider,
        [\<lparr>rq_url = ''https://auth.example.com/token'', rq_method = ''POST'',
          rq_content_type = Some ''application/x-www-form-urlencoded'',
          rq_body = FormBody [(''grant_type'', ''authorization_code''),
                              (''client_id'', ''test-client''),
                              (''client_secret'', ''test-secret''),
                              (''code'', ''test-code'')]\<rparr>])
   \<and> OAuthTokensSchema_parse (JObject []) = Inl (ZodError ''invalid token response'')
   \<and> fst (exchangeAuthorizationCode (fetch_status 200 (Some (JObject [])))
            (new_ProxyOAuthServerProvider baseOptions) validClient ''test-code'')
       = Inl (ZodError ''invalid token response'')"
  by (simp add: exchangeAuthorizationCode_lazy_def tokenOnlyProvider_def getMetadata_def
        fetch_status_def ok_def response_json_def or_else_def truthy_def validClient_def
        or_empty_def OAuthTokensSchema_parse_def exchangeAuthorizationCode_def
        new_ProxyOAuthServerProvider_def baseOptions_def)

subsection \<open>Concurrent calls of getMetadata\<close>

text \<open>One caller alone, run through its three events, does what \<open>getMetadata\<close> does.\<close>

lemma single_caller_is_getMetadata:
  assumes "getMetadata fetch p = (res, p', calls)"
  shows "run [Call 0, FetchSettled 0 (fetch (metadata_request (or_empty (metadataUrl_lazy p)))), JsonSettled 0]
           \<lparr>sys_metadataUrl = metadataUrl_lazy p, sys_metadata = metadata_lazy p,
            sys_callers = [NotStarted], sys_requests = []\<rparr>
         = \<lparr>sys_metadataUrl = metadataUrl_lazy p, sys_metadata = metadata_lazy p',
            sys_callers = [case res of Inl e \<Rightarrow> Rejected e | Inr m \<Rightarrow> Resolved m],
            sys_requests = calls\<rparr>"
proof (cases "metadataUrl_lazy p")
  case None
  with assms show ?thesis by (auto simp: getMetadata_def run_def step_def)
next
  case (Some url)
  show ?thesis
  proof (cases "url = [] \<or> cached (metadata_lazy p)")
    case True
    with Some assms show ?thesis by (auto simp: getMetadata_def run_def step_def)
  next
    case False
    show ?thesis
    proof (cases "fetch (metadata_request url)")
      case (Inl e)
      with False Some assms show ?thesis
        by (auto simp: getMetadata_def run_def step_def or_empty_def)
    next
      case (Inr r)
      with False Some assms show ?thesis
        by (cases "body_json r")
           (auto simp: getMetadata_def run_def step_def or_empty_def response_json_def)
    qed
  qed
qed

text \<open>A call that starts when a document is cached issues no request.\<close>

lemma cached_call_does_not_fetch:
  "cached (sys_metadata s) \<Longrightarrow> sys_requests (step (Call i) s) = sys_requests s"
  by (simp add: step_def split: option.splits)

text \<open>
  C9. Two calls that start before either fetch has settled both find the cache empty
  and both issue the GET: two fetches are in flight at once. Nothing in
  \<open>getMetadata\<close> makes the second caller wait for the first.
\<close>

theorem concurrent_first_calls_fetch_twice:
  "in_flight (run [Call 0, Call 1] (start (Some ''https://auth.example.com/metadata'') 2)) = 2
   \<and> sys_requests (run [Call 0, Call 1] (start (Some ''https://auth.example.com/metadata'') 2))
       = [metadata_request ''https://auth.example.com/metadata'',
          metadata_request ''https://auth.example.com/metadata'']"
  by (simp add: run_def step_def start_def in_flight_def cached_def numeral_2_eq_2)


section \<open>Properties of the bearer authentication middleware\<close>

lemma try_wellformed:
  assumes "split (CHR '' '') h = type # tok # rest" and "toLowerCase type = ''bearer''" and "tok \<noteq> []"
  shows "requireBearerAuth_try options (Some h)
     = (case options_verifyToken options tok of
          Inl e \<Rightarrow> (Inl e, [tok])
        | Inr authInfo \<Rightarrow>
            if \<not> set (case requiredScopes options of None \<Rightarrow> [] | Some rs \<Rightarrow> rs)
                   \<subseteq> set (auth_scopes authInfo)
            then (Inl (InsufficientScopeError ''Insufficient scope''), [tok])
            else (Inr authInfo, [tok]))"
proof -
  from assms(1) have "h \<noteq> []" by auto
  with assms show ?thesis
    by (auto simp: requireBearerAuth_try_def truthy_def or_empty_def Let_def list_all_iff
             split: sum.splits option.splits)
qed

lemma try_malformed:
  assumes "h \<noteq> []"
    and "split (CHR '' '') h = [type] \<or> split (CHR '' '') h = type # [] # rest
         \<or> (split (CHR '' '') h = type # segs \<and> toLowerCase type \<noteq> ''bearer'')"
  shows "requireBearerAuth_try options (Some h)
     = (Inl (InvalidTokenError (''Invalid Authorization header format, expected '' @ [CHR 0x27]
                                 @ ''Bearer TOKEN'' @ [CHR 0x27])), [])"
  using assms
  by (auto simp: requireBearerAuth_try_def truthy_def Let_def split: list.splits)

lemma lower_Bearer: "toLowerCase ''Bearer'' = ''bearer''"
  by code_simp

lemma providerOptions_rejects:
  "options_verifyToken providerOptions ''invalid-token'' = Inl (Error ''Invalid token'')"
  by (simp add: options_verifyToken_def providerOptions_def provider_verifyAccessToken_def
        verifyAccessToken_def new_ProxyOAuthServerProvider_def baseOptions_def)

subsection \<open>Required scopes\<close>

text \<open>
  C5. For a well-formed header whose token the verification function accepts, the
  middleware calls the downstream handler exactly when every required scope is among
  the granted scopes, as sets of strings compared by equality; it then passes the
  verified identity on. Otherwise it answers 403 with the \<open>WWW-Authenticate\<close> header
  \<open>Bearer error="insufficient_scope", error_description="Insufficient scope"\<close>.
\<close>

theorem scopes_subset_authorizes:
  assumes "split (CHR '' '') h = type # tok # rest"
    and "toLowerCase type = ''bearer''" and "tok \<noteq> []"
    and "options_verifyToken options tok = Inr authInfo"
  shows "((\<exists>a. fst (requireBearerAuth options (Some h)) = Next a)
            = (set (case requiredScopes options of None \<Rightarrow> [] | Some rs \<Rightarrow> rs)
                 \<subseteq> set (auth_scopes authInfo)))
       \<and> (set (case requiredScopes options of None \<Rightarrow> [] | Some rs \<Rightarrow> rs)
             \<subseteq> set (auth_scopes authInfo) \<longrightarrow>
           fst (requireBearerAuth options (Some h)) = Next authInfo)
       \<and> (\<not> set (case requiredScopes options of None \<Rightarrow> [] | Some rs \<Rightarrow> rs)
               \<subseteq> set (auth_scopes authInfo) \<longrightarrow>
           fst (requireBearerAuth options (Some h))
             = Respond 403
                 (Some (''Bearer error='' @ [CHR 0x22] @ ''insufficient_scope'' @ [CHR 0x22]
                        @ '', error_description='' @ [CHR 0x22] @ ''Insufficient scope''
                        @ [CHR 0x22]))
                 \<lparr>resp_error = ''insufficient_scope'',
                  resp_error_description = ''Insufficient scope''\<rparr>)"
  using try_wellformed [OF assms(1-3), of options] assms(4)
  by (auto simp: requireBearerAuth_def requireBearerAuth_catch_def www_authenticate_def
        toResponseObject_def errorCode_def message_def)

text \<open>The spec's scenario: header \<open>Bearer abc123\<close>, granted \<open>read\<close>, required
  \<open>read\<close> and \<open>write\<close>.\<close>

theorem insufficient_scope_witness:
  "split (CHR '' '') ''Bearer abc123'' = ''Bearer'' # ''abc123'' # []
   \<and> toLowerCase ''Bearer'' = ''bearer''
   \<and> options_verifyToken scenarioOptions ''abc123''
       = Inr \<lparr>auth_token = ''abc123'', auth_clientId = ''c1'', auth_scopes = [''read''],
              auth_expiresAt = None\<rparr>
   \<and> fst (requireBearerAuth scenarioOptions (Some ''Bearer abc123''))
       = Respond 403
           (Some (''Bearer error='' @ [CHR 0x22] @ ''insufficient_scope'' @ [CHR 0x22]
                  @ '', error_description='' @ [CHR 0x22] @ ''Insufficient scope''
                  @ [CHR 0x22]))
           \<lparr>resp_error = ''insufficient_scope'', resp_error_description = ''Insufficient scope''\<rparr>"
proof -
  have a: "split (CHR '' '') ''Bearer abc123'' = ''Bearer'' # ''abc123'' # []" by simp
  have b: "toLowerCase ''Bearer'' = ''bearer''" by (rule lower_Bearer)
  have c: "''abc123'' \<noteq> []" by simp
  have d: "options_verifyToken scenarioOptions ''abc123''
       = Inr \<lparr>auth_token = ''abc123'', auth_clientId = ''c1'', auth_scopes = [''read''],
              auth_expiresAt = None\<rparr>"
    by (simp add: options_verifyToken_def scenarioOptions_def)
  have e: "\<not> set (case requiredScopes scenarioOptions of None \<Rightarrow> [] | Some rs \<Rightarrow> rs)
               \<subseteq> set (auth_scopes \<lparr>auth_token = ''abc123'', auth_clientId = ''c1'',
                                     auth_scopes = [''read''], auth_expiresAt = None\<rparr>)"
    by (simp add: scenarioOptions_def)
  from scopes_subset_authorizes [OF a b c d] e a b d show ?thesis by blast
qed

subsection \<open>Errors of the verification function\<close>

text \<open>
  C8, as amended. An error raised by the verification function reaches the mapping
  unchanged; nothing tags it. An \<open>InvalidTokenError\<close> gives 401 and an
  \<open>InsufficientScopeError\<close> 403, both with a \<open>WWW-Authenticate\<close> header; a
  \<open>ServerError\<close> gives 500 and any other \<open>OAuthError\<close> 400, with the error's own
  code and message; every other error gives 500 with the body \<open>server_error\<close>,
  "Internal Server Error", and no header. The verification function was called once,
  with the token.
\<close>

theorem verification_error_keeps_its_kind:
  assumes "split (CHR '' '') h = type # tok # rest"
    and "toLowerCase type = ''bearer''" and "tok \<noteq> []"
    and "options_verifyToken options tok = Inl e"
  shows "snd (requireBearerAuth options (Some h)) = [tok]
       \<and> (\<forall>m. e = InvalidTokenError m \<longrightarrow>
             fst (requireBearerAuth options (Some h))
               = Respond 401
                   (Some (''Bearer error='' @ [CHR 0x22] @ ''invalid_token'' @ [CHR 0x22]
                          @ '', error_description='' @ [CHR 0x22] @ m @ [CHR 0x22]))
                   \<lparr>resp_error = ''invalid_token'', resp_error_description = m\<rparr>)
       \<and> (\<forall>m. e = InsufficientScopeError m \<longrightarrow>
             fst (requireBearerAuth options (Some h))
               = Respond 403
                   (Some (''Bearer error='' @ [CHR 0x22] @ ''insufficient_scope'' @ [CHR 0x22]
                          @ '', error_description='' @ [CHR 0x22] @ m @ [CHR 0x22]))
                   \<lparr>resp_error = ''insufficient_scope'', resp_error_description = m\<rparr>)
       \<and> (\<forall>m. e = ServerError m \<longrightarrow>
             fst (requireBearerAuth options (Some h))
               = Respond 500 None \<lparr>resp_error = ''server_error'', resp_error_description = m\<rparr>)
       \<and> (\<forall>c m. e = OAuthError c m \<longrightarrow>
             fst (requireBearerAuth options (Some h))
               = Respond 400 None \<lparr>resp_error = c, resp_error_description = m\<rparr>)
       \<and> (\<forall>m. e = Error m \<or> e = TypeError m \<or> e = SyntaxError m \<or> e = ZodError m \<longrightarrow>
             fst (requireBearerAuth options (Some h))
               = Respond 500 None
                   \<lparr>resp_error = ''server_error'',
                    resp_error_description = ''Internal Server Error''\<rparr>)"
  using try_wellformed [OF assms(1-3), of options] assms(4)
  by (auto simp: requireBearerAuth_def requireBearerAuth_catch_def www_authenticate_def
        toResponseObject_def errorCode_def message_def)

text \<open>The verification function of the test suite throws \<open>Error("Invalid token")\<close>.\<close>

theorem verification_error_witness:
  "split (CHR '' '') ''Bearer invalid-token'' = ''Bearer'' # ''invalid-token'' # []
   \<and> toLowerCase ''Bearer'' = ''bearer''
   \<and> options_verifyToken providerOptions ''invalid-token'' = Inl (Error ''Invalid token'')
   \<and> snd (requireBearerAuth providerOptions (Some ''Bearer invalid-token'')) = [''invalid-token'']"
proof -
  have a: "split (CHR '' '') ''Bearer invalid-token'' = ''Bearer'' # ''invalid-token'' # []" by simp
  have c: "''invalid-token'' \<noteq> []" by simp
  from verification_error_keeps_its_kind [OF a lower_Bearer c providerOptions_rejects]
    a lower_Bearer providerOptions_rejects
  show ?thesis by blast
qed

text \<open>
  The claim as it stands fails: the plain \<open>Error\<close> that the verification function of
  the test suite throws for an unknown token is answered with 500 and
  \<open>server_error\<close>, not with 401 and \<open>invalid_token\<close>.
\<close>

theorem plain_error_from_verification_is_500:
  "options_verifyToken providerOptions ''invalid-token'' = Inl (Error ''Invalid token'')
   \<and> requireBearerAuth providerOptions (Some ''Bearer invalid-token'')
       = (Respond 500 None
            \<lparr>resp_error = ''server_error'', resp_error_description = ''Internal Server Error''\<rparr>,
          [''invalid-token''])"
proof -
  have a: "split (CHR '' '') ''Bearer invalid-token'' = ''Bearer'' # ''invalid-token'' # []" by simp
  from try_wellformed [OF a lower_Bearer, of providerOptions] providerOptions_rejects
  have "requireBearerAuth_try providerOptions (Some ''Bearer invalid-token'')
          = (Inl (Error ''Invalid token''), [''invalid-token''])" by simp
  with providerOptions_rejects show ?thesis
    by (simp add: requireBearerAuth_def requireBearerAuth_catch_def toResponseObject_def
          errorCode_def message_def)
qed

subsection \<open>The segments of the header\<close>

text \<open>
  C10. The header is split at every single space. When the first segment is
  \<open>bearer\<close> in any case and the second segment is not empty, the verification
  function is called once, with exactly the second segment; further segments are
  ignored. When there is no second segment, or it is empty, the request is answered
  with 401 and \<open>invalid_token\<close> and the verification function is not called.
\<close>

theorem second_segment_is_the_token:
  assumes "h \<noteq> []"
  shows "(\<forall>type tok rest.
            split (CHR '' '') h = type # tok # rest \<and> toLowerCase type = ''bearer'' \<and> tok \<noteq> [] \<longrightarrow>
            snd (requireBearerAuth options (Some h)) = [tok])
       \<and> (\<forall>type rest.
            split (CHR '' '') h = [type] \<or> split (CHR '' '') h = type # [] # rest \<longrightarrow>
            requireBearerAuth options (Some h)
              = (Respond 401
                   (Some (''Bearer error='' @ [CHR 0x22] @ ''invalid_token'' @ [CHR 0x22]
                          @ '', error_description='' @ [CHR 0x22]
                          @ ''Invalid Authorization header format, expected '' @ [CHR 0x27]
                          @ ''Bearer TOKEN'' @ [CHR 0x27] @ [CHR 0x22]))
                   \<lparr>resp_error = ''invalid_token'',
                    resp_error_description =
                      ''Invalid Authorization header format, expected '' @ [CHR 0x27]
                      @ ''Bearer TOKEN'' @ [CHR 0x27]\<rparr>, []))"
proof (intro conjI allI impI)
  fix type tok rest
  assume "split (CHR '' '') h = type # tok # rest \<and> toLowerCase type = ''bearer'' \<and> tok \<noteq> []"
  then show "snd (requireBearerAuth options (Some h)) = [tok]"
    using try_wellformed [of h type tok rest options]
    by (auto simp: requireBearerAuth_def split: sum.splits if_splits)
next
  fix type rest
  assume "split (CHR '' '') h = [type] \<or> split (CHR '' '') h = type # [] # rest"
  then show "requireBearerAuth options (Some h)
              = (Respond 401
                   (Some (''Bearer error='' @ [CHR 0x22] @ ''invalid_token'' @ [CHR 0x22]
                          @ '', error_description='' @ [CHR 0x22]
                          @ ''Invalid Authorization header format, expected '' @ [CHR 0x27]
                          @ ''Bearer TOKEN'' @ [CHR 0x27] @ [CHR 0x22]))
                   \<lparr>resp_error = ''invalid_token'',
                    resp_error_description =
                      ''Invalid Authorization header format, expected '' @ [CHR 0x27]
                      @ ''Bearer TOKEN'' @ [CHR 0x27]\<rparr>, [])"
    using try_malformed [OF assms, of type rest _ options]
    by (auto simp: requireBearerAuth_def requireBearerAuth_catch_def www_authenticate_def
          toResponseObject_def errorCode_def message_def)
qed

text \<open>\<open>Bearer x y\<close> verifies \<open>x\<close>; \<open>Bearer\<close> followed by two spaces and \<open>x\<close>, and
  \<open>Bearer\<close> alone, are rejected before any verification.\<close>

theorem second_segment_witness:
  "''Bearer x y'' \<noteq> []
   \<and> split (CHR '' '') ''Bearer x y'' = ''Bearer'' # ''x'' # [''y'']
   \<and> toLowerCase ''Bearer'' = ''bearer''
   \<and> snd (requireBearerAuth providerOptions (Some ''Bearer x y'')) = [''x'']
   \<and> split (CHR '' '') ''Bearer  x'' = ''Bearer'' # [] # [''x'']
   \<and> requireBearerAuth providerOptions (Some ''Bearer  x'')
       = (Respond 401
                   (Some (''Bearer error='' @ [CHR 0x22] @ ''invalid_token'' @ [CHR 0x22]
                          @ '', error_description='' @ [CHR 0x22]
                          @ ''Invalid Authorization header format, expected '' @ [CHR 0x27]
                          @ ''Bearer TOKEN'' @ [CHR 0x27] @ [CHR 0x22]))
                   \<lparr>resp_error = ''invalid_token'',
                    resp_error_description =
                      ''Invalid Authorization header format, expected '' @ [CHR 0x27]
                      @ ''Bearer TOKEN'' @ [CHR 0x27]\<rparr>, [])
   \<and> split (CHR '' '') ''Bearer'' = [''Bearer'']
   \<and> requireBearerAuth providerOptions (Some ''Bearer'')
       = (Respond 401
                   (Some (''Bearer error='' @ [CHR 0x22] @ ''invalid_token'' @ [CHR 0x22]
                          @ '', error_description='' @ [CHR 0x22]
                          @ ''Invalid Authorization header format, expected '' @ [CHR 0x27]
                          @ ''Bearer TOKEN'' @ [CHR 0x27] @ [CHR 0x22]))
                   \<lparr>resp_error = ''invalid_token'',
                    resp_error_description =
                      ''Invalid Authorization header format, expected '' @ [CHR 0x27]
                      @ ''Bearer TOKEN'' @ [CHR 0x27]\<rparr>, [])"
proof -
  have a: "split (CHR '' '') ''Bearer x y'' = ''Bearer'' # ''x'' # [''y'']" by simp
  have b: "split (CHR '' '') ''Bearer  x'' = ''Bearer'' # [] # [''x'']" by simp
  have c: "split (CHR '' '') ''Bearer'' = [''Bearer'']" by simp
  have n: "''Bearer x y'' \<noteq> []" "''Bearer  x'' \<noteq> []" "''Bearer'' \<noteq> []" by simp_all
  have x: "''x'' \<noteq> []" by simp
  from second_segment_is_the_token [OF n(1), of providerOptions] a lower_Bearer x
  have 1: "snd (requireBearerAuth providerOptions (Some ''Bearer x y'')) = [''x'']" by blast
  from second_segment_is_the_token [OF n(2), of providerOptions] b
  have 2: "requireBearerAuth providerOptions (Some ''Bearer  x'')
       = (Respond 401
                   (Some (''Bearer error='' @ [CHR 0x22] @ ''invalid_token'' @ [CHR 0x22]
                          @ '', error_description='' @ [CHR 0x22]
                          @ ''Invalid Authorization header format, expected '' @ [CHR 0x27]
                          @ ''Bearer TOKEN'' @ [CHR 0x27] @ [CHR 0x22]))
                   \<lparr>resp_error = ''invalid_token'',
                    resp_error_description =
                      ''Invalid Authorization header format, expected '' @ [CHR 0x27]
                      @ ''Bearer TOKEN'' @ [CHR 0x27]\<rparr>, [])" by blast
  from second_segment_is_the_token [OF n(3), of providerOptions] c
  have 3: "requireBearerAuth providerOptions (Some ''Bearer'')
       = (Respond 401
                   (Some (''Bearer error='' @ [CHR 0x22] @ ''invalid_token'' @ [CHR 0x22]
                          @ '', error_description='' @ [CHR 0x22]
                          @ ''Invalid Authorization header format, expected '' @ [CHR 0x27]
                          @ ''Bearer TOKEN'' @ [CHR 0x27] @ [CHR 0x22]))
                   \<lparr>resp_error = ''invalid_token'',
                    resp_error_description =
                      ''Invalid Authorization header format, expected '' @ [CHR 0x27]
                      @ ''Bearer TOKEN'' @ [CHR 0x27]\<rparr>, [])" by blast
  from a b c n lower_Bearer 1 2 3 show ?thesis by blast
qed


section \<open>Properties of the metadata handler\<close>

lemma proxy_url_Some:
  "(proxy_url provider getter = Some u)
     = (\<exists>p. provider = Proxy p \<and> getter (p_endpoints p) = Some u \<and> u \<noteq> [])"
  by (cases provider) (auto simp: proxy_url_def truthy_def split: option.splits)

lemma buildUrl_origin: "buildUrl issuerUrl path = origin issuerUrl @ path"
  by (simp add: buildUrl_def new_URL_with_base_def href_def origin_def)

lemma proxy_url_truthy: "proxy_url provider getter = Some u \<Longrightarrow> u \<noteq> []"
  by (auto simp: proxy_url_Some)








text \<open>The router's own assembly of the document agrees with the handler's.\<close>

lemma router_metadata_is_handler_metadata:
  "mcpAuthRouter_metadata provider issuerUrl doc = metadataHandler provider issuerUrl doc"
  apply (simp add: mcpAuthRouter_metadata_def metadataHandler_def getEndpointUrl_def Let_def
        buildUrl_origin or_else_def or_empty_def truthy_def origin_def href_def new_URL_with_base_def
        DEFAULT_AUTHORIZATION_ENDPOINT_def DEFAULT_TOKEN_ENDPOINT_def
        DEFAULT_REVOCATION_ENDPOINT_def DEFAULT_REGISTRATION_ENDPOINT_def
        split: option.splits)
  apply (auto dest: proxy_url_truthy)
  done

section \<open>The test suite of the proxy provider\<close>

text \<open>The cases of \<open>proxyProvider.test.ts\<close> that succeed, evaluated on the model: the
  requests are the ones the tests expect, and so are the results.\<close>

lemma parse_mockTokenResponse:
  "OAuthTokensSchema_parse mockTokenResponse
     = Inr \<lparr>access_token = ''new-access-token'', token_type = ''Bearer'',
            expires_in = Some 3600, refresh_token = Some ''new-refresh-token''\<rparr>"
  by (simp add: OAuthTokensSchema_parse_def mockTokenResponse_def optional_number_def
        optional_string_def)

lemma exchanges_authorization_code_for_tokens:
  "exchangeAuthorizationCode (fetch_status 200 (Some mockTokenResponse))
       (new_ProxyOAuthServerProvider baseOptions) validClient ''test-code''
     = (Inr \<lparr>access_token = ''new-access-token'', token_type = ''Bearer'',
              expires_in = Some 3600, refresh_token = Some ''new-refresh-token''\<rparr>,
        [\<lparr>rq_url = ''https://auth.example.com/token'', rq_method = ''POST'',
          rq_content_type = Some ''application/x-www-form-urlencoded'',
          rq_body = FormBody [(''grant_type'', ''authorization_code''),
                              (''client_id'', ''test-client''),
                              (''client_secret'', ''test-secret''),
                              (''code'', ''test-code'')]\<rparr>])"
  by (simp add: exchangeAuthorizationCode_def new_ProxyOAuthServerProvider_def baseOptions_def
        validClient_def fetch_status_def ok_def response_json_def or_empty_def
        parse_mockTokenResponse)

lemma exchanges_refresh_token_for_new_tokens:
  "exchangeRefreshToken (fetch_status 200 (Some mockTokenResponse))
       (new_ProxyOAuthServerProvider baseOptions) validClient ''test-refresh-token''
       (Some [''read'', ''write''])
     = (Inr \<lparr>access_token = ''new-access-token'', token_type = ''Bearer'',
              expires_in = Some 3600, refresh_token = Some ''new-refresh-token''\<rparr>,
        [\<lparr>rq_url = ''https://auth.example.com/token'', rq_method = ''POST'',
          rq_content_type = Some ''application/x-www-form-urlencoded'',
          rq_body = FormBody [(''grant_type'', ''refresh_token''),
                              (''client_id'', ''test-client''),
                              (''client_secret'', ''test-secret''),
                              (''refresh_token'', ''test-refresh-token''),
                              (''scope'', ''read write'')]\<rparr>])"
  by (simp add: exchangeRefreshToken_def new_ProxyOAuthServerProvider_def baseOptions_def
        validClient_def fetch_status_def ok_def response_json_def or_empty_def
        parse_mockTokenResponse)

lemma revokes_token:
  "map_option (\<lambda>f. f (fetch_status 200 None) validClient
                      \<lparr>token = ''token-to-revoke'', token_type_hint = Some ''access_token''\<rparr>)
     (revokeToken (new_ProxyOAuthServerProvider baseOptions))
     = Some (Inr (),
        [\<lparr>rq_url = ''https://auth.example.com/revoke'', rq_method = ''POST'',
          rq_content_type = Some ''application/x-www-form-urlencoded'',
          rq_body = FormBody [(''token'', ''token-to-revoke''),
                              (''client_id'', ''test-client''),
                              (''client_secret'', ''test-secret''),
                              (''token_type_hint'', ''access_token'')]\<rparr>])"
  by (simp add: revokeToken_closure_def new_ProxyOAuthServerProvider_def baseOptions_def
        validClient_def fetch_status_def ok_def or_empty_def truthy_def)

lemma verifies_valid_token:
  "map_sum id auth_token (verifyAccessToken (new_ProxyOAuthServerProvider baseOptions) ''valid-token'')
     = Inr ''valid-token''
   \<and> verifyAccessToken (new_ProxyOAuthServerProvider baseOptions) ''invalid-token''
     = Inl (Error ''Invalid token'')"
  by (simp add: verifyAccessToken_def new_ProxyOAuthServerProvider_def baseOptions_def)

section \<open>Upstream failures in the lazy variant\<close>

text \<open>The lazy variant throws the same \<open>ServerError\<close> on an upstream status outside
  200 to 299, after the requests of \<open>getMetadata\<close>.\<close>

lemma upstream_failure_lazy:
  assumes "getMetadata fetch q = (Inr metadata, q', calls)" and "\<not> ok r" and "fetch rq = Inr r"
  shows "(snd (snd (exchangeAuthorizationCode_lazy fetch q client code)) = calls @ [rq] \<longrightarrow>
            fst (exchangeAuthorizationCode_lazy fetch q client code)
              = Inl (ServerError (''Token exchange failed: '' @ string_of_nat (status r))))
       \<and> (snd (snd (exchangeRefreshToken_lazy fetch q client refreshToken scps)) = calls @ [rq] \<longrightarrow>
            fst (exchangeRefreshToken_lazy fetch q client refreshToken scps)
              = Inl (ServerError (''Token refresh failed: '' @ string_of_nat (status r))))
       \<and> (snd (snd (revokeToken_lazy fetch q client req)) = calls @ [rq] \<longrightarrow>
            fst (revokeToken_lazy fetch q client req)
              = Inl (ServerError (''Token revocation failed: '' @ string_of_nat (status r))))
       \<and> (snd (snd (registerClient_lazy fetch q client)) = calls @ [rq] \<longrightarrow>
            fst (registerClient_lazy fetch q client)
              = Inl (ServerError (''Client registration failed: '' @ string_of_nat (status r))))"
proof (intro conjI impI)
  assume "snd (snd (exchangeAuthorizationCode_lazy fetch q client code)) = calls @ [rq]"
  with assms show "fst (exchangeAuthorizationCode_lazy fetch q client code)
              = Inl (ServerError (''Token exchange failed: '' @ string_of_nat (status r)))"
    by (cases "or_else (tokenUrl_lazy (endpoints_lazy q')) (metadata_property metadata ''token_endpoint'')")
       (auto simp: exchangeAuthorizationCode_lazy_def Let_def split: if_splits sum.splits)
next
  assume "snd (snd (exchangeRefreshToken_lazy fetch q client refreshToken scps)) = calls @ [rq]"
  with assms show "fst (exchangeRefreshToken_lazy fetch q client refreshToken scps)
              = Inl (ServerError (''Token refresh failed: '' @ string_of_nat (status r)))"
    by (cases "or_else (tokenUrl_lazy (endpoints_lazy q')) (metadata_property metadata ''token_endpoint'')")
       (auto simp: exchangeRefreshToken_lazy_def Let_def split: if_splits sum.splits)
next
  assume "snd (snd (revokeToken_lazy fetch q client req)) = calls @ [rq]"
  with assms show "fst (revokeToken_lazy fetch q client req)
              = Inl (ServerError (''Token revocation failed: '' @ string_of_nat (status r)))"
    by (cases "or_else (revokeUrl (endpoints_lazy q')) (metadata_property metadata ''revocation_endpoint'')")
       (auto simp: revokeToken_lazy_def Let_def split: if_splits sum.splits)
next
  assume "snd (snd (registerClient_lazy fetch q client)) = calls @ [rq]"
  with assms show "fst (registerClient_lazy fetch q client)
              = Inl (ServerError (''Client registration failed: '' @ string_of_nat (status r)))"
    by (cases "or_else (registerUrl (endpoints_lazy q')) (metadata_property metadata ''registration_endpoint'')")
       (auto simp: registerClient_lazy_def Let_def split: if_splits sum.splits)
qed

end
